theory Spec2Isabelle
  imports Main
begin

section \<open>Data model of \<open>src/app.py\<close>\<close>

text \<open>
  The application keeps three module-level dictionaries: \<open>users\<close>, \<open>sessions\<close> and
  \<open>activities\<close>. Every handler reads and mutates them in place. The model threads them
  through each handler as one record, and a handler that mutates returns the new record
  next to its result. An \<open>HTTPException\<close> raised by a handler is the \<open>Inl\<close> branch of
  its result.
\<close>

datatype http_exception = HTTPException (status_code: nat) (detail: string)

text \<open>A user record is the dictionary \<open>{"password": .., "role": .., "name": ..}\<close>.\<close>

record user_info =
  password :: string
  role :: string
  name :: string

text \<open>
  \<open>get_current_user\<close> returns \<open>{"email": email, **user}\<close>: the user record extended by
  the key \<open>email\<close>.
\<close>

record current_user = user_info +
  email :: string

record activity =
  description :: string
  schedule :: string
  max_participants :: int
  participants :: "string list"

record state =
  users :: "string \<rightharpoonup> user_info"
  sessions :: "string \<rightharpoonup> string"
  activities :: "string \<rightharpoonup> activity"

text \<open>
  A flat JSON object with string values, in key order (the handlers' return values), and
  the JSON body of a request (\<open>data: dict\<close>), read with \<open>data.get(key)\<close>: a key that is
  missing reads as \<open>None\<close>.
\<close>

type_synonym json_object = "(string \<times> string) list"

type_synonym body = "string \<rightharpoonup> string"

text \<open>Python's \<open>not v\<close> on an optional string: \<open>None\<close> and the empty string are falsy.\<close>

definition py_not :: "string option \<Rightarrow> bool" where
  "py_not v = (case v of None \<Rightarrow> True | Some s \<Rightarrow> s = [])"

section \<open>Seed data\<close>

definition seed_users :: "string \<rightharpoonup> user_info" where
  "seed_users =
    [''admin@mergington.edu'' \<mapsto>
       \<lparr>password = ''adminpass'', role = ''admin'', name = ''Admin User''\<rparr>,
     ''teacher@mergington.edu'' \<mapsto>
       \<lparr>password = ''teachpass'', role = ''staff'', name = ''Teacher T.''\<rparr>,
     ''student@mergington.edu'' \<mapsto>
       \<lparr>password = ''studpass'', role = ''student'', name = ''Student S.''\<rparr>]"

definition seed_activities :: "string \<rightharpoonup> activity" where
  "seed_activities =
    [''Chess Club'' \<mapsto>
       \<lparr>description = ''Learn strategies and compete in chess tournaments'',
        schedule = ''Fridays, 3:30 PM - 5:00 PM'',
        max_participants = 12,
        participants = [''michael@mergington.edu'', ''daniel@mergington.edu'']\<rparr>,
     ''Programming Class'' \<mapsto>
       \<lparr>description = ''Learn programming fundamentals and build software projects'',
        schedule = ''Tuesdays and Thursdays, 3:30 PM - 4:30 PM'',
        max_participants = 20,
        participants = [''emma@mergington.edu'', ''sophia@mergington.edu'']\<rparr>,
     ''Gym Class'' \<mapsto>
       \<lparr>description = ''Physical education and sports activities'',
        schedule = ''Mondays, Wednesdays, Fridays, 2:00 PM - 3:00 PM'',
        max_participants = 30,
        participants = [''john@mergington.edu'', ''olivia@mergington.edu'']\<rparr>,
     ''Soccer Team'' \<mapsto>
       \<lparr>description = ''Join the school soccer team and compete in matches'',
        schedule = ''Tuesdays and Thursdays, 4:00 PM - 5:30 PM'',
        max_participants = 22,
        participants = [''liam@mergington.edu'', ''noah@mergington.edu'']\<rparr>,
     ''Basketball Team'' \<mapsto>
       \<lparr>description = ''Practice and play basketball with the school team'',
        schedule = ''Wednesdays and Fridays, 3:30 PM - 5:00 PM'',
        max_participants = 15,
        participants = [''ava@mergington.edu'', ''mia@mergington.edu'']\<rparr>,
     ''Art Club'' \<mapsto>
       \<lparr>description = ''Explore your creativity through painting and drawing'',
        schedule = ''Thursdays, 3:30 PM - 5:00 PM'',
        max_participants = 15,
        participants = [''amelia@mergington.edu'', ''harper@mergington.edu'']\<rparr>,
     ''Drama Club'' \<mapsto>
       \<lparr>description = ''Act, direct, and produce plays and performances'',
        schedule = ''Mondays and Wednesdays, 4:00 PM - 5:30 PM'',
        max_participants = 20,
        participants = [''ella@mergington.edu'', ''scarlett@mergington.edu'']\<rparr>,
     ''Math Club'' \<mapsto>
       \<lparr>description = ''Solve challenging problems and participate in math competitions'',
        schedule = ''Tuesdays, 3:30 PM - 4:30 PM'',
        max_participants = 10,
        participants = [''james@mergington.edu'', ''benjamin@mergington.edu'']\<rparr>,
     ''Debate Team'' \<mapsto>
       \<lparr>description = ''Develop public speaking and argumentation skills'',
        schedule = ''Fridays, 4:00 PM - 5:30 PM'',
        max_participants = 12,
        participants = [''charlotte@mergington.edu'', ''henry@mergington.edu'']\<rparr>]"

definition initial_state :: state where
  "initial_state =
    \<lparr>users = seed_users, sessions = Map.empty, activities = seed_activities\<rparr>"

section \<open>Session handling\<close>

definition get_activities :: "state \<Rightarrow> (string \<rightharpoonup> activity)" where
  "get_activities st = activities st"

text \<open>
  The cookie \<open>session_token\<close> is optional (\<open>Cookie(None)\<close>). A missing or empty cookie and
  a token that is not a key of \<open>sessions\<close> raise 401; so does a session whose email has
  no user record any more.
\<close>

definition get_current_user :: "state \<Rightarrow> string option \<Rightarrow> http_exception + current_user" where
  "get_current_user st session_token =
    (case session_token of
       None \<Rightarrow> Inl (HTTPException 401 ''Not authenticated'')
     | Some tok \<Rightarrow>
        (if tok = [] then Inl (HTTPException 401 ''Not authenticated'')
         else
          (case sessions st tok of
             None \<Rightarrow> Inl (HTTPException 401 ''Not authenticated'')
           | Some email' \<Rightarrow>
              (case users st email' of
                 None \<Rightarrow> Inl (HTTPException 401 ''Invalid session'')
               | Some user \<Rightarrow>
                  Inr \<lparr>password = password user, role = role user, name = name user,
                       email = email'\<rparr>))))"

text \<open>
  \<open>Depends(get_current_user)\<close>: the framework resolves the dependency before it calls
  the handler, and the handler is not called when the dependency raises.
\<close>

definition depends_current_user ::
  "state \<Rightarrow> string option \<Rightarrow> (current_user \<Rightarrow> (http_exception + 'a) \<times> state)
     \<Rightarrow> (http_exception + 'a) \<times> state" where
  "depends_current_user st session_token handler =
    (case get_current_user st session_token of
       Inl e \<Rightarrow> (Inl e, st)
     | Inr user \<Rightarrow> handler user)"

text \<open>
  The response of \<open>login\<close>: its JSON body and the value of the cookie \<open>session_token\<close> it
  sets.
\<close>

record login_response =
  content :: json_object
  set_cookie :: string

text \<open>
  \<open>login\<close> draws its token from \<open>secrets.token_urlsafe(16)\<close>; the drawn token is the
  parameter \<open>session_token\<close>. \<open>users.get(email)\<close> with \<open>email = None\<close> finds nothing.
\<close>

definition login :: "state \<Rightarrow> body \<Rightarrow> string \<Rightarrow> (http_exception + login_response) \<times> state" where
  "login st data session_token =
    (case Option.bind (data ''email'') (\<lambda>email'. map_option (Pair email') (users st email')) of
       None \<Rightarrow> (Inl (HTTPException 401 ''Invalid credentials''), st)
     | Some (email', user) \<Rightarrow>
        (if Some (password user) \<noteq> data ''password''
         then (Inl (HTTPException 401 ''Invalid credentials''), st)
         else
          (Inr \<lparr>content = [(''message'', ''Login successful''), (''role'', role user),
                            (''name'', name user)],
                set_cookie = session_token\<rparr>,
           st\<lparr>sessions := (sessions st)(session_token \<mapsto> email')\<rparr>)))"

text \<open>\<open>logout\<close> deletes the token when it is a key of \<open>sessions\<close> and never raises.\<close>

definition logout :: "state \<Rightarrow> string option \<Rightarrow> json_object \<times> state" where
  "logout st session_token =
    ([(''message'', ''Logged out'')],
     (case session_token of
        None \<Rightarrow> st
      | Some tok \<Rightarrow>
         (case sessions st tok of
            None \<Rightarrow> st
          | Some _ \<Rightarrow> st\<lparr>sessions := (sessions st)(tok := None)\<rparr>)))"

definition get_me :: "current_user \<Rightarrow> json_object" where
  "get_me user = [(''email'', email user), (''role'', role user), (''name'', name user)]"

section \<open>Activity enrollment\<close>

text \<open>
  Both handlers receive the user that \<open>get_current_user\<close> resolved. The checks run in the
  order of the source, and the roster is only touched after the last check.
\<close>

definition signup_for_activity ::
  "state \<Rightarrow> string \<Rightarrow> string \<Rightarrow> current_user \<Rightarrow> (http_exception + json_object) \<times> state" where
  "signup_for_activity st activity_name email' user =
    (case activities st activity_name of
       None \<Rightarrow> (Inl (HTTPException 404 ''Activity not found''), st)
     | Some activity \<Rightarrow>
        (if role user = ''student'' \<and> email user \<noteq> email'
         then (Inl (HTTPException 403 ''Students can only sign up themselves''), st)
         else if email' \<in> set (participants activity)
         then (Inl (HTTPException 400 ''Student is already signed up''), st)
         else
          (Inr [(''message'', ''Signed up '' @ email' @ '' for '' @ activity_name)],
           st\<lparr>activities := (activities st)(activity_name \<mapsto>
                 activity\<lparr>participants := participants activity @ [email']\<rparr>)\<rparr>)))"

text \<open>\<open>list.remove\<close> deletes the first occurrence, which is \<^const>\<open>remove1\<close>.\<close>

definition unregister_from_activity ::
  "state \<Rightarrow> string \<Rightarrow> string \<Rightarrow> current_user \<Rightarrow> (http_exception + json_object) \<times> state" where
  "unregister_from_activity st activity_name email' user =
    (case activities st activity_name of
       None \<Rightarrow> (Inl (HTTPException 404 ''Activity not found''), st)
     | Some activity \<Rightarrow>
        (if role user = ''student'' \<and> email user \<noteq> email'
         then (Inl (HTTPException 403 ''Students can only unregister themselves''), st)
         else if email' \<notin> set (participants activity)
         then (Inl (HTTPException 400 ''Student is not signed up for this activity''), st)
         else
          (Inr [(''message'', ''Unregistered '' @ email' @ '' from '' @ activity_name)],
           st\<lparr>activities := (activities st)(activity_name \<mapsto>
                 activity\<lparr>participants := remove1 email' (participants activity)\<rparr>)\<rparr>)))"

section \<open>Account administration\<close>

text \<open>
  \<open>require_roles(roles)\<close> returns the checker that is applied to the current user. The
  three handlers below name it as their dependency, so each applies it first.
\<close>

definition require_roles :: "string list \<Rightarrow> current_user \<Rightarrow> http_exception + current_user" where
  "require_roles roles user =
    (if role user \<notin> set roles then Inl (HTTPException 403 ''Insufficient permissions'')
     else Inr user)"

definition create_user ::
  "state \<Rightarrow> body \<Rightarrow> current_user \<Rightarrow> (http_exception + json_object) \<times> state" where
  "create_user st data user0 =
    (case require_roles [''admin'', ''staff''] user0 of
       Inl e \<Rightarrow> (Inl e, st)
     | Inr user \<Rightarrow>
        (if py_not (data ''email'') \<or> py_not (data ''password'') \<or> py_not (data ''role'')
            \<or> py_not (data ''name'')
         then (Inl (HTTPException 400 ''Missing user fields''), st)
         else
          (case (data ''email'', data ''password'', data ''role'', data ''name'') of
             (Some email', Some password', Some role', Some name') \<Rightarrow>
               (if users st email' \<noteq> None
                then (Inl (HTTPException 400 ''User already exists''), st)
                else if role' \<notin> set [''admin'', ''staff'', ''student'']
                then (Inl (HTTPException 400 ''Invalid role''), st)
                else
                 (Inr [(''message'', ''User '' @ email' @ '' created with role '' @ role')],
                  st\<lparr>users := (users st)(email' \<mapsto>
                        \<lparr>password = password', role = role', name = name'\<rparr>)\<rparr>))
           | _ \<Rightarrow> (Inl (HTTPException 400 ''Missing user fields''), st))))"

definition delete_user ::
  "state \<Rightarrow> string \<Rightarrow> current_user \<Rightarrow> (http_exception + json_object) \<times> state" where
  "delete_user st email' user0 =
    (case require_roles [''admin''] user0 of
       Inl e \<Rightarrow> (Inl e, st)
     | Inr user \<Rightarrow>
        (case users st email' of
           None \<Rightarrow> (Inl (HTTPException 404 ''User not found''), st)
         | Some target \<Rightarrow>
            (if role target = ''admin''
             then (Inl (HTTPException 403 ''Cannot delete another admin''), st)
             else
              (Inr [(''message'', ''User '' @ email' @ '' deleted'')],
               st\<lparr>users := (users st)(email' := None)\<rparr>))))"

text \<open>
  \<open>info.items()\<close> of a user record, in the key order the records are built with, and the
  comprehension of \<open>list_users\<close> that drops the key \<open>password\<close> from it.
\<close>

definition items :: "user_info \<Rightarrow> json_object" where
  "items info = [(''password'', password info), (''role'', role info), (''name'', name info)]"

definition list_users :: "state \<Rightarrow> current_user \<Rightarrow> http_exception + (string \<rightharpoonup> json_object)" where
  "list_users st user0 =
    (case require_roles [''admin'', ''staff''] user0 of
       Inl e \<Rightarrow> Inl e
     | Inr user \<Rightarrow>
        Inr (\<lambda>email'. map_option (\<lambda>info. filter (\<lambda>(k, v). k \<noteq> ''password'') (items info))
                        (users st email')))"

section \<open>Observations and sample values\<close>

text \<open>The roster of an activity: \<open>activities[activity_name]["participants"]\<close>.\<close>

definition roster :: "state \<Rightarrow> string \<Rightarrow> string list option" where
  "roster st activity_name = map_option participants (activities st activity_name)"

text \<open>
  The same state with the capacity of every activity replaced: activity \<open>n\<close> gets
  \<open>max_participants = f n\<close>, and nothing else changes.
\<close>

definition set_max_participants :: "(string \<Rightarrow> int) \<Rightarrow> state \<Rightarrow> state" where
  "set_max_participants f st =
    st\<lparr>activities := (\<lambda>n. map_option (\<lambda>a. a\<lparr>max_participants := f n\<rparr>) (activities st n))\<rparr>"

text \<open>
  The users that \<open>get_current_user\<close> resolves for sessions of the three seeded accounts.
\<close>

definition admin_user :: current_user where
  "admin_user = \<lparr>password = ''adminpass'', role = ''admin'', name = ''Admin User'',
                 email = ''admin@mergington.edu''\<rparr>"

definition staff_user :: current_user where
  "staff_user = \<lparr>password = ''teachpass'', role = ''staff'', name = ''Teacher T.'',
                 email = ''teacher@mergington.edu''\<rparr>"

definition student_user :: current_user where
  "student_user = \<lparr>password = ''studpass'', role = ''student'', name = ''Student S.'',
                   email = ''student@mergington.edu''\<rparr>"

text \<open>
  The seeded catalog after eight more signups for the Math Club, whose roster then has
  as many entries as its \<open>max_participants\<close>.
\<close>

definition crowded_state :: state where
  "crowded_state =
    initial_state\<lparr>activities := (activities initial_state)(''Math Club'' \<mapsto>
      \<lparr>description = ''Solve challenging problems and participate in math competitions'',
       schedule = ''Tuesdays, 3:30 PM - 4:30 PM'',
       max_participants = 10,
       participants = [''james@mergington.edu'', ''benjamin@mergington.edu'',
         ''s1@mergington.edu'', ''s2@mergington.edu'', ''s3@mergington.edu'',
         ''s4@mergington.edu'', ''s5@mergington.edu'', ''s6@mergington.edu'',
         ''s7@mergington.edu'', ''s8@mergington.edu'']\<rparr>)\<rparr>"

text \<open>The seeded state with one session of the administrator.\<close>

definition logged_in_state :: state where
  "logged_in_state =
    initial_state\<lparr>sessions := [''Zm9vYmFyYmF6cXV4MTIzNA'' \<mapsto> ''admin@mergington.edu'']\<rparr>"

section \<open>Sample values of the seeded state\<close>

lemma admin_rec: "users initial_state ''admin@mergington.edu'' =
    Some \<lparr>password = ''adminpass'', role = ''admin'', name = ''Admin User''\<rparr>"
  by (simp add: initial_state_def seed_users_def)

lemma student_rec: "users initial_state ''student@mergington.edu'' =
    Some \<lparr>password = ''studpass'', role = ''student'', name = ''Student S.''\<rparr>"
  by (simp add: initial_state_def seed_users_def)

lemma nobody_rec: "users initial_state ''nobody@mergington.edu'' = None"
  by (simp add: initial_state_def seed_users_def)

section \<open>Enrollment\<close>

lemma chess: "activities initial_state ''Chess Club'' = Some
       \<lparr>description = ''Learn strategies and compete in chess tournaments'',
        schedule = ''Fridays, 3:30 PM - 5:00 PM'',
        max_participants = 12,
        participants = [''michael@mergington.edu'', ''daniel@mergington.edu'']\<rparr>"
  by (simp add: initial_state_def seed_activities_def)

lemma signup_not_found:
  "activities st a = None \<Longrightarrow>
     signup_for_activity st a e u = (Inl (HTTPException 404 ''Activity not found''), st)"
  by (simp add: signup_for_activity_def)

lemma signup_forbidden:
  "activities st a = Some act \<Longrightarrow> role u = ''student'' \<Longrightarrow> email u \<noteq> e \<Longrightarrow>
     signup_for_activity st a e u =
       (Inl (HTTPException 403 ''Students can only sign up themselves''), st)"
  by (simp add: signup_for_activity_def)

lemma signup_already:
  "activities st a = Some act \<Longrightarrow> role u \<noteq> ''student'' \<or> email u = e \<Longrightarrow>
   e \<in> set (participants act) \<Longrightarrow>
     signup_for_activity st a e u =
       (Inl (HTTPException 400 ''Student is already signed up''), st)"
  by (auto simp add: signup_for_activity_def)

lemma signup_ok:
  "activities st a = Some act \<Longrightarrow> role u \<noteq> ''student'' \<or> email u = e \<Longrightarrow>
   e \<notin> set (participants act) \<Longrightarrow>
     signup_for_activity st a e u =
       (Inr [(''message'', ''Signed up '' @ e @ '' for '' @ a)],
        st\<lparr>activities := (activities st)(a \<mapsto> act\<lparr>participants := participants act @ [e]\<rparr>)\<rparr>)"
  by (auto simp add: signup_for_activity_def)

lemma signup_Inr_D:
  assumes "fst (signup_for_activity st a e u) = Inr r"
  obtains act where "activities st a = Some act" "role u \<noteq> ''student'' \<or> email u = e"
    "e \<notin> set (participants act)"
  using assms by (auto simp add: signup_for_activity_def split: option.splits if_splits)

lemma signup_fail_unchanged:
  "fst (signup_for_activity st a e u) = Inl x \<Longrightarrow> snd (signup_for_activity st a e u) = st"
  by (auto simp add: signup_for_activity_def split: option.splits if_splits)

lemma unregister_forbidden:
  "activities st a = Some act \<Longrightarrow> role u = ''student'' \<Longrightarrow> email u \<noteq> e \<Longrightarrow>
     unregister_from_activity st a e u =
       (Inl (HTTPException 403 ''Students can only unregister themselves''), st)"
  by (simp add: unregister_from_activity_def)

lemma signup_never_forbidden:
  "role u \<noteq> ''student'' \<or> email u = e \<Longrightarrow>
     fst (signup_for_activity st a e u) \<noteq> Inl (HTTPException 403 d)"
  by (auto simp add: signup_for_activity_def split: option.splits)

lemma unregister_never_forbidden:
  "role u \<noteq> ''student'' \<or> email u = e \<Longrightarrow>
     fst (unregister_from_activity st a e u) \<noteq> Inl (HTTPException 403 d)"
  by (auto simp add: unregister_from_activity_def split: option.splits)

lemma unregister_ok:
  "activities st a = Some act \<Longrightarrow> role u \<noteq> ''student'' \<or> email u = e \<Longrightarrow>
   e \<in> set (participants act) \<Longrightarrow>
     unregister_from_activity st a e u =
       (Inr [(''message'', ''Unregistered '' @ e @ '' from '' @ a)],
        st\<lparr>activities := (activities st)(a \<mapsto>
              act\<lparr>participants := remove1 e (participants act)\<rparr>)\<rparr>)"
  by (auto simp add: unregister_from_activity_def)

text \<open>
  C1 (ownership rule of the enrollment handlers). For an activity of the catalog, a
  current user whose role is \<open>student\<close> and whose email differs from the target email
  gets the 403 of the ownership check from both \<open>signup_for_activity\<close> and
  \<open>unregister_from_activity\<close>, and the state is left as it was. A current user who is not
  a student, or whose email is the target email, never gets a 403 from either handler,
  whatever the activity name and the roster are.
\<close>

theorem ownership_rule:
  "(activities st a = Some act \<and> role u = ''student'' \<and> email u \<noteq> e \<longrightarrow>
      signup_for_activity st a e u =
        (Inl (HTTPException 403 ''Students can only sign up themselves''), st) \<and>
      unregister_from_activity st a e u =
        (Inl (HTTPException 403 ''Students can only unregister themselves''), st)) \<and>
   (role u \<noteq> ''student'' \<or> email u = e \<longrightarrow>
      (\<forall>d. fst (signup_for_activity st a e u) \<noteq> Inl (HTTPException 403 d)) \<and>
      (\<forall>d. fst (unregister_from_activity st a e u) \<noteq> Inl (HTTPException 403 d)))"
  using signup_forbidden unregister_forbidden signup_never_forbidden unregister_never_forbidden
  by blast

theorem ownership_rule_witness:
  "signup_for_activity initial_state ''Chess Club'' ''emma@mergington.edu'' student_user =
     (Inl (HTTPException 403 ''Students can only sign up themselves''), initial_state) \<and>
   unregister_from_activity initial_state ''Chess Club'' ''michael@mergington.edu'' student_user =
     (Inl (HTTPException 403 ''Students can only unregister themselves''), initial_state) \<and>
   (\<forall>d. fst (signup_for_activity initial_state ''Chess Club'' ''emma@mergington.edu'' staff_user)
      \<noteq> Inl (HTTPException 403 d)) \<and>
   (\<forall>d. fst (unregister_from_activity initial_state ''Chess Club''
          ''student@mergington.edu'' student_user) \<noteq> Inl (HTTPException 403 d))"
  using ownership_rule [of initial_state "''Chess Club''" _ student_user "''emma@mergington.edu''"]
    ownership_rule [of initial_state "''Chess Club''" _ student_user "''michael@mergington.edu''"]
    ownership_rule [of initial_state "''Chess Club''" _ staff_user "''emma@mergington.edu''"]
    ownership_rule [of initial_state "''Chess Club''" _ student_user "''student@mergington.edu''"]
  by (simp add: chess student_user_def staff_user_def)

text \<open>
  C2 (signup succeeds and appends). When the activity is in the catalog, the email is not
  in its roster, and the current user is not a student or signs up their own email,
  \<open>signup_for_activity\<close> returns its message, the new roster is the old roster followed
  by the email (every other field, activity and dictionary is untouched), and the email
  occurs exactly once in the new roster.
\<close>

theorem signup_success:
  "activities st a = Some act \<Longrightarrow> s \<notin> set (participants act) \<Longrightarrow>
   role u \<noteq> ''student'' \<or> email u = s \<Longrightarrow>
     signup_for_activity st a s u =
       (Inr [(''message'', ''Signed up '' @ s @ '' for '' @ a)],
        st\<lparr>activities := (activities st)(a \<mapsto> act\<lparr>participants := participants act @ [s]\<rparr>)\<rparr>) \<and>
     roster (snd (signup_for_activity st a s u)) a = Some (participants act @ [s]) \<and>
     count_list (participants act @ [s]) s = 1"
  by (simp add: signup_ok roster_def)

theorem signup_success_witness:
  "roster (snd (signup_for_activity initial_state ''Chess Club'' ''emma@mergington.edu'' staff_user))
      ''Chess Club'' =
     Some [''michael@mergington.edu'', ''daniel@mergington.edu'', ''emma@mergington.edu''] \<and>
   fst (signup_for_activity initial_state ''Chess Club'' ''student@mergington.edu'' student_user) =
     Inr [(''message'', ''Signed up student@mergington.edu for Chess Club'')]"
  using signup_success [OF chess, of "''emma@mergington.edu''" staff_user]
    signup_success [OF chess, of "''student@mergington.edu''" student_user]
  by (simp add: student_user_def staff_user_def roster_def)

lemma signup_twice:
  assumes "fst (signup_for_activity st a e u) = Inr r"
    and "role u' \<noteq> ''student'' \<or> email u' = e"
  shows "signup_for_activity (snd (signup_for_activity st a e u)) a e u' =
           (Inl (HTTPException 400 ''Student is already signed up''),
            snd (signup_for_activity st a e u))"
proof -
  from assms(1) obtain act where act: "activities st a = Some act"
    and own: "role u \<noteq> ''student'' \<or> email u = e" and new: "e \<notin> set (participants act)"
    by (rule signup_Inr_D)
  let ?st = "st\<lparr>activities := (activities st)(a \<mapsto> act\<lparr>participants := participants act @ [e]\<rparr>)\<rparr>"
  have "snd (signup_for_activity st a e u) = ?st"
    by (simp add: signup_ok [OF act own new])
  moreover have "signup_for_activity ?st a e u' =
      (Inl (HTTPException 400 ''Student is already signed up''), ?st)"
    by (rule signup_already [where act = "act\<lparr>participants := participants act @ [e]\<rparr>"])
      (use assms(2) in simp_all)
  ultimately show ?thesis by simp
qed

text \<open>
  C3 (order of the failures of signup, and their atomicity). An activity name that is not
  in the catalog gives 404 whatever the user and the email are; otherwise a student
  acting for another email gives 403; otherwise an email already in the roster gives
  400. A signup that follows a successful signup of the same activity and email, by any
  user who passes the ownership check, gives that 400 and leaves the roster at the same
  length. Whenever signup raises, the state it returns is the state it was given.
\<close>

theorem signup_failures:
  "(activities st a = None \<longrightarrow>
      signup_for_activity st a e u = (Inl (HTTPException 404 ''Activity not found''), st)) \<and>
   (\<forall>act. activities st a = Some act \<and> role u = ''student'' \<and> email u \<noteq> e \<longrightarrow>
      signup_for_activity st a e u =
        (Inl (HTTPException 403 ''Students can only sign up themselves''), st)) \<and>
   (\<forall>act. activities st a = Some act \<and> (role u \<noteq> ''student'' \<or> email u = e) \<and>
         e \<in> set (participants act) \<longrightarrow>
      signup_for_activity st a e u =
        (Inl (HTTPException 400 ''Student is already signed up''), st)) \<and>
   (\<forall>r u'. fst (signup_for_activity st a e u) = Inr r \<and> (role u' \<noteq> ''student'' \<or> email u' = e) \<longrightarrow>
      signup_for_activity (snd (signup_for_activity st a e u)) a e u' =
        (Inl (HTTPException 400 ''Student is already signed up''),
         snd (signup_for_activity st a e u)) \<and>
      map_option length (roster (snd (signup_for_activity st a e u)) a) =
        map_option length
          (roster (snd (signup_for_activity (snd (signup_for_activity st a e u)) a e u')) a)) \<and>
   (\<forall>x. fst (signup_for_activity st a e u) = Inl x \<longrightarrow>
      snd (signup_for_activity st a e u) = st)"
  using signup_not_found [of st a e u] signup_forbidden [of st a _ u e]
    signup_already [of st a _ u e] signup_twice [of st a e u]
    signup_fail_unchanged [of st a e u]
  by (simp (no_asm_simp))

theorem signup_failures_witness:
  "signup_for_activity initial_state ''Knitting'' ''emma@mergington.edu'' student_user =
     (Inl (HTTPException 404 ''Activity not found''), initial_state) \<and>
   signup_for_activity initial_state ''Chess Club'' ''emma@mergington.edu'' student_user =
     (Inl (HTTPException 403 ''Students can only sign up themselves''), initial_state) \<and>
   signup_for_activity initial_state ''Chess Club'' ''michael@mergington.edu'' staff_user =
     (Inl (HTTPException 400 ''Student is already signed up''), initial_state) \<and>
   signup_for_activity
     (snd (signup_for_activity initial_state ''Chess Club'' ''emma@mergington.edu'' staff_user))
     ''Chess Club'' ''emma@mergington.edu'' staff_user =
     (Inl (HTTPException 400 ''Student is already signed up''),
      snd (signup_for_activity initial_state ''Chess Club'' ''emma@mergington.edu'' staff_user))"
proof -
  let ?club = "\<lparr>description = ''Learn strategies and compete in chess tournaments'',
        schedule = ''Fridays, 3:30 PM - 5:00 PM'',
        max_participants = 12,
        participants = [''michael@mergington.edu'', ''daniel@mergington.edu'']\<rparr>"
  have "activities initial_state ''Knitting'' = None"
    by (simp add: initial_state_def seed_activities_def)
  with signup_failures [of initial_state "''Knitting''" "''emma@mergington.edu''" student_user]
  have absent: "signup_for_activity initial_state ''Knitting'' ''emma@mergington.edu''
      student_user = (Inl (HTTPException 404 ''Activity not found''), initial_state)"
    by blast
  have "activities initial_state ''Chess Club'' = Some ?club \<and> role student_user = ''student'' \<and>
      email student_user \<noteq> ''emma@mergington.edu''"
    by (simp add: chess student_user_def)
  with signup_failures [of initial_state "''Chess Club''" "''emma@mergington.edu''" student_user]
  have forbidden: "signup_for_activity initial_state ''Chess Club'' ''emma@mergington.edu''
      student_user =
      (Inl (HTTPException 403 ''Students can only sign up themselves''), initial_state)"
    by blast
  have "activities initial_state ''Chess Club'' = Some ?club \<and>
      (role staff_user \<noteq> ''student'' \<or> email staff_user = ''michael@mergington.edu'') \<and>
      ''michael@mergington.edu'' \<in> set (participants ?club)"
    by (simp add: chess staff_user_def)
  with signup_failures [of initial_state "''Chess Club''" "''michael@mergington.edu''" staff_user]
  have enrolled: "signup_for_activity initial_state ''Chess Club'' ''michael@mergington.edu''
      staff_user = (Inl (HTTPException 400 ''Student is already signed up''), initial_state)"
    by blast
  have "fst (signup_for_activity initial_state ''Chess Club'' ''emma@mergington.edu'' staff_user) =
      Inr [(''message'', ''Signed up emma@mergington.edu for Chess Club'')] \<and>
      (role staff_user \<noteq> ''student'' \<or> email staff_user = ''emma@mergington.edu'')"
    by (simp add: signup_for_activity_def chess staff_user_def)
  with signup_failures [of initial_state "''Chess Club''" "''emma@mergington.edu''" staff_user]
  have twice: "signup_for_activity
     (snd (signup_for_activity initial_state ''Chess Club'' ''emma@mergington.edu'' staff_user))
     ''Chess Club'' ''emma@mergington.edu'' staff_user =
     (Inl (HTTPException 400 ''Student is already signed up''),
      snd (signup_for_activity initial_state ''Chess Club'' ''emma@mergington.edu'' staff_user))"
    by blast
  from absent forbidden enrolled twice show ?thesis by blast
qed

text \<open>
  C4 (round trip). After a successful signup of an email for an activity, unregistering
  the same email from the same activity, by any user who passes the ownership check,
  succeeds and gives back exactly the state before the signup; in particular the roster
  is the roster before the signup.
\<close>

theorem signup_unregister_round_trip:
  assumes "fst (signup_for_activity st a s u) = Inr r"
    and "role u' \<noteq> ''student'' \<or> email u' = s"
  shows "unregister_from_activity (snd (signup_for_activity st a s u)) a s u' =
           (Inr [(''message'', ''Unregistered '' @ s @ '' from '' @ a)], st) \<and>
         roster (snd (unregister_from_activity (snd (signup_for_activity st a s u)) a s u')) a =
           roster st a"
proof -
  from assms(1) obtain act where act: "activities st a = Some act"
    and own: "role u \<noteq> ''student'' \<or> email u = s" and new: "s \<notin> set (participants act)"
    by (rule signup_Inr_D)
  let ?act = "act\<lparr>participants := participants act @ [s]\<rparr>"
  let ?st = "st\<lparr>activities := (activities st)(a \<mapsto> ?act)\<rparr>"
  have mid: "snd (signup_for_activity st a s u) = ?st"
    by (simp add: signup_ok [OF act own new])
  have "unregister_from_activity ?st a s u' =
      (Inr [(''message'', ''Unregistered '' @ s @ '' from '' @ a)],
       ?st\<lparr>activities := (activities ?st)(a \<mapsto>
              ?act\<lparr>participants := remove1 s (participants ?act)\<rparr>)\<rparr>)"
    by (rule unregister_ok) (use assms(2) in simp_all)
  moreover have "remove1 s (participants ?act) = participants act"
    using new by (simp add: remove1_append)
  moreover have "(activities st)(a \<mapsto> act) = activities st"
    using act by (rule map_upd_triv)
  ultimately have "unregister_from_activity ?st a s u' =
      (Inr [(''message'', ''Unregistered '' @ s @ '' from '' @ a)], st)"
    by simp
  with mid show ?thesis by simp
qed

theorem signup_unregister_round_trip_witness:
  "unregister_from_activity
     (snd (signup_for_activity initial_state ''Chess Club'' ''student@mergington.edu'' student_user))
     ''Chess Club'' ''student@mergington.edu'' staff_user =
   (Inr [(''message'', ''Unregistered student@mergington.edu from Chess Club'')], initial_state)"
proof -
  have "fst (signup_for_activity initial_state ''Chess Club'' ''student@mergington.edu''
          student_user) = Inr [(''message'', ''Signed up student@mergington.edu for Chess Club'')]"
    by (simp add: signup_for_activity_def chess student_user_def)
  moreover have "role staff_user \<noteq> ''student'' \<or> email staff_user = ''student@mergington.edu''"
    by (simp add: staff_user_def)
  ultimately show ?thesis
    using signup_unregister_round_trip [of initial_state "''Chess Club''"
        "''student@mergington.edu''" student_user _ staff_user]
    by simp
qed

lemma activities_set_max [simp]:
  "activities (set_max_participants f st) n =
     map_option (\<lambda>a. a\<lparr>max_participants := f n\<rparr>) (activities st n)"
  "users (set_max_participants f st) = users st"
  "sessions (set_max_participants f st) = sessions st"
  by (simp_all add: set_max_participants_def)

lemma signup_set_max:
  "signup_for_activity (set_max_participants f st) a s u =
     (fst (signup_for_activity st a s u),
      set_max_participants f (snd (signup_for_activity st a s u)))"
  by (cases "activities st a")
    (auto simp add: signup_for_activity_def set_max_participants_def fun_eq_iff)

lemma unregister_set_max:
  "unregister_from_activity (set_max_participants f st) a s u =
     (fst (unregister_from_activity st a s u),
      set_max_participants f (snd (unregister_from_activity st a s u)))"
  by (cases "activities st a")
    (auto simp add: unregister_from_activity_def set_max_participants_def fun_eq_iff)

lemma get_current_user_set_max:
  "get_current_user (set_max_participants f st) tok = get_current_user st tok"
  by (simp add: get_current_user_def split: option.splits)

lemma login_set_max:
  "login (set_max_participants f st) d t =
     (fst (login st d t), set_max_participants f (snd (login st d t)))"
  by (auto simp add: login_def set_max_participants_def split: option.splits)

lemma logout_set_max:
  "logout (set_max_participants f st) tok =
     (fst (logout st tok), set_max_participants f (snd (logout st tok)))"
  by (auto simp add: logout_def set_max_participants_def split: option.splits)

lemma create_user_set_max:
  "create_user (set_max_participants f st) d u =
     (fst (create_user st d u), set_max_participants f (snd (create_user st d u)))"
  by (auto simp add: create_user_def set_max_participants_def split: option.splits sum.splits)

lemma delete_user_set_max:
  "delete_user (set_max_participants f st) e u =
     (fst (delete_user st e u), set_max_participants f (snd (delete_user st e u)))"
  by (auto simp add: delete_user_def set_max_participants_def split: option.splits sum.splits)

lemma list_users_set_max:
  "list_users (set_max_participants f st) u = list_users st u"
  by (simp add: list_users_def split: sum.splits)




text \<open>
  C5 (no capacity enforcement). A signup of an email that is not yet in the roster, by a
  user who passes the ownership check, succeeds whatever the length of the roster is:
  it returns its message and the state in which the roster is the old roster followed by
  the email, with no hypothesis about \<open>max_participants\<close>; when the old roster already
  has \<open>max_participants\<close> entries or more, the new roster has more entries than
  \<open>max_participants\<close>. The other conjuncts say that replacing every \<open>max_participants\<close>
  by arbitrary numbers changes the result of no handler: each handler returns the same
  result, and the same state up to the replaced capacities.
\<close>

theorem no_capacity_enforcement:
  "(activities st a = Some act \<and> s \<notin> set (participants act) \<and>
      (role u \<noteq> ''student'' \<or> email u = s) \<longrightarrow>
      signup_for_activity st a s u =
        (Inr [(''message'', ''Signed up '' @ s @ '' for '' @ a)],
         st\<lparr>activities := (activities st)(a \<mapsto>
               act\<lparr>participants := participants act @ [s]\<rparr>)\<rparr>) \<and>
      roster (snd (signup_for_activity st a s u)) a = Some (participants act @ [s]) \<and>
      (max_participants act \<le> int (length (participants act)) \<longrightarrow>
         (\<exists>act'. activities (snd (signup_for_activity st a s u)) a = Some act' \<and>
            max_participants act' = max_participants act \<and>
            max_participants act' < int (length (participants act'))))) \<and>
   signup_for_activity (set_max_participants f st) a s u =
     (fst (signup_for_activity st a s u),
      set_max_participants f (snd (signup_for_activity st a s u))) \<and>
   unregister_from_activity (set_max_participants f st) a s u =
     (fst (unregister_from_activity st a s u),
      set_max_participants f (snd (unregister_from_activity st a s u))) \<and>
   get_current_user (set_max_participants f st) tok = get_current_user st tok \<and>
   login (set_max_participants f st) d t =
     (fst (login st d t), set_max_participants f (snd (login st d t))) \<and>
   logout (set_max_participants f st) tok =
     (fst (logout st tok), set_max_participants f (snd (logout st tok))) \<and>
   create_user (set_max_participants f st) d u =
     (fst (create_user st d u), set_max_participants f (snd (create_user st d u))) \<and>
   delete_user (set_max_participants f st) e u =
     (fst (delete_user st e u), set_max_participants f (snd (delete_user st e u))) \<and>
   list_users (set_max_participants f st) u = list_users st u"
proof (intro conjI impI)
  assume h: "activities st a = Some act \<and> s \<notin> set (participants act) \<and>
      (role u \<noteq> ''student'' \<or> email u = s)"
  then have ok: "signup_for_activity st a s u =
        (Inr [(''message'', ''Signed up '' @ s @ '' for '' @ a)],
         st\<lparr>activities := (activities st)(a \<mapsto>
               act\<lparr>participants := participants act @ [s]\<rparr>)\<rparr>)"
    by (simp add: signup_ok)
  then show "signup_for_activity st a s u =
        (Inr [(''message'', ''Signed up '' @ s @ '' for '' @ a)],
         st\<lparr>activities := (activities st)(a \<mapsto>
               act\<lparr>participants := participants act @ [s]\<rparr>)\<rparr>)" .
  from ok show "roster (snd (signup_for_activity st a s u)) a = Some (participants act @ [s])"
    by (simp add: roster_def)
  assume "max_participants act \<le> int (length (participants act))"
  with ok show "\<exists>act'. activities (snd (signup_for_activity st a s u)) a = Some act' \<and>
            max_participants act' = max_participants act \<and>
            max_participants act' < int (length (participants act'))"
    by simp
next
  show "signup_for_activity (set_max_participants f st) a s u =
     (fst (signup_for_activity st a s u),
      set_max_participants f (snd (signup_for_activity st a s u)))"
    by (rule signup_set_max)
next
  show "unregister_from_activity (set_max_participants f st) a s u =
     (fst (unregister_from_activity st a s u),
      set_max_participants f (snd (unregister_from_activity st a s u)))"
    by (rule unregister_set_max)
next
  show "get_current_user (set_max_participants f st) tok = get_current_user st tok"
    by (rule get_current_user_set_max)
next
  show "login (set_max_participants f st) d t =
     (fst (login st d t), set_max_participants f (snd (login st d t)))"
    by (rule login_set_max)
next
  show "logout (set_max_participants f st) tok =
     (fst (logout st tok), set_max_participants f (snd (logout st tok)))"
    by (rule logout_set_max)
next
  show "create_user (set_max_participants f st) d u =
     (fst (create_user st d u), set_max_participants f (snd (create_user st d u)))"
    by (rule create_user_set_max)
next
  show "delete_user (set_max_participants f st) e u =
     (fst (delete_user st e u), set_max_participants f (snd (delete_user st e u)))"
    by (rule delete_user_set_max)
next
  show "list_users (set_max_participants f st) u = list_users st u"
    by (rule list_users_set_max)
qed

lemma math_full: "activities crowded_state ''Math Club'' = Some
      \<lparr>description = ''Solve challenging problems and participate in math competitions'',
       schedule = ''Tuesdays, 3:30 PM - 4:30 PM'',
       max_participants = 10,
       participants = [''james@mergington.edu'', ''benjamin@mergington.edu'',
         ''s1@mergington.edu'', ''s2@mergington.edu'', ''s3@mergington.edu'',
         ''s4@mergington.edu'', ''s5@mergington.edu'', ''s6@mergington.edu'',
         ''s7@mergington.edu'', ''s8@mergington.edu'']\<rparr>"
  by (simp add: crowded_state_def)

theorem no_capacity_enforcement_witness:
  "signup_for_activity crowded_state ''Math Club'' ''student@mergington.edu'' student_user =
     (Inr [(''message'', ''Signed up student@mergington.edu for Math Club'')],
      crowded_state\<lparr>activities := (activities crowded_state)(''Math Club'' \<mapsto>
        \<lparr>description = ''Solve challenging problems and participate in math competitions'',
         schedule = ''Tuesdays, 3:30 PM - 4:30 PM'',
         max_participants = 10,
         participants = [''james@mergington.edu'', ''benjamin@mergington.edu'',
           ''s1@mergington.edu'', ''s2@mergington.edu'', ''s3@mergington.edu'',
           ''s4@mergington.edu'', ''s5@mergington.edu'', ''s6@mergington.edu'',
           ''s7@mergington.edu'', ''s8@mergington.edu'', ''student@mergington.edu'']\<rparr>)\<rparr>) \<and>
   map_option (\<lambda>a. (max_participants a, length (participants a)))
     (activities
        (snd (signup_for_activity crowded_state ''Math Club'' ''student@mergington.edu''
               student_user))
        ''Math Club'') = Some (10, 11) \<and>
   (\<exists>act'. activities
        (snd (signup_for_activity crowded_state ''Math Club'' ''student@mergington.edu''
               student_user))
        ''Math Club'' = Some act' \<and>
      max_participants act' < int (length (participants act')))"
proof -
  let ?act = "\<lparr>description = ''Solve challenging problems and participate in math competitions'',
       schedule = ''Tuesdays, 3:30 PM - 4:30 PM'',
       max_participants = 10,
       participants = [''james@mergington.edu'', ''benjamin@mergington.edu'',
         ''s1@mergington.edu'', ''s2@mergington.edu'', ''s3@mergington.edu'',
         ''s4@mergington.edu'', ''s5@mergington.edu'', ''s6@mergington.edu'',
         ''s7@mergington.edu'', ''s8@mergington.edu'']\<rparr>"
  let ?s = "''student@mergington.edu''"
  have h: "activities crowded_state ''Math Club'' = Some ?act \<and>
      ?s \<notin> set (participants ?act) \<and>
      (role student_user \<noteq> ''student'' \<or> email student_user = ?s)"
    by (simp add: math_full student_user_def)
  have full: "max_participants ?act \<le> int (length (participants ?act))"
    by simp
  note c = no_capacity_enforcement [where st = crowded_state and a = "''Math Club''"
      and s = ?s and u = student_user and f = "\<lambda>n. 0" and tok = None
      and d = Map.empty and t = "[]" and e = "[]" and act = ?act,
      THEN conjunct1, THEN mp, OF h]
  from c have pair: "signup_for_activity crowded_state ''Math Club'' ?s student_user =
      (Inr [(''message'', ''Signed up '' @ ?s @ '' for '' @ ''Math Club'')],
       crowded_state\<lparr>activities := (activities crowded_state)(''Math Club'' \<mapsto>
         ?act\<lparr>participants := participants ?act @ [?s]\<rparr>)\<rparr>)"
    by (rule conjunct1)
  from c have "max_participants ?act \<le> int (length (participants ?act)) \<longrightarrow>
      (\<exists>act'. activities (snd (signup_for_activity crowded_state ''Math Club'' ?s student_user))
          ''Math Club'' = Some act' \<and>
        max_participants act' = max_participants ?act \<and>
        max_participants act' < int (length (participants act')))"
    by (rule conjunct2 [THEN conjunct2])
  with full have over: "\<exists>act'. activities
        (snd (signup_for_activity crowded_state ''Math Club'' ?s student_user))
        ''Math Club'' = Some act' \<and>
      max_participants act' < int (length (participants act'))"
    by blast
  have first: "signup_for_activity crowded_state ''Math Club'' ?s student_user =
     (Inr [(''message'', ''Signed up student@mergington.edu for Math Club'')],
      crowded_state\<lparr>activities := (activities crowded_state)(''Math Club'' \<mapsto>
        \<lparr>description = ''Solve challenging problems and participate in math competitions'',
         schedule = ''Tuesdays, 3:30 PM - 4:30 PM'',
         max_participants = 10,
         participants = [''james@mergington.edu'', ''benjamin@mergington.edu'',
           ''s1@mergington.edu'', ''s2@mergington.edu'', ''s3@mergington.edu'',
           ''s4@mergington.edu'', ''s5@mergington.edu'', ''s6@mergington.edu'',
           ''s7@mergington.edu'', ''s8@mergington.edu'', ''student@mergington.edu'']\<rparr>)\<rparr>)"
    by (simp add: pair)
  have second: "map_option (\<lambda>a. (max_participants a, length (participants a)))
     (activities (snd (signup_for_activity crowded_state ''Math Club'' ?s student_user))
        ''Math Club'') = Some (10, 11)"
    by (simp add: pair)
  from first second over show ?thesis by blast
qed

section \<open>Sessions\<close>

lemma login_no_email:
  "data ''email'' = None \<Longrightarrow>
     login st data tok = (Inl (HTTPException 401 ''Invalid credentials''), st)"
  by (simp add: login_def)

lemma login_no_record:
  "data ''email'' = Some e \<Longrightarrow> users st e = None \<Longrightarrow>
     login st data tok = (Inl (HTTPException 401 ''Invalid credentials''), st)"
  by (simp add: login_def)

lemma login_mismatch:
  "data ''email'' = Some e \<Longrightarrow> users st e = Some u \<Longrightarrow> data ''password'' \<noteq> Some (password u) \<Longrightarrow>
     login st data tok = (Inl (HTTPException 401 ''Invalid credentials''), st)"
  by (simp add: login_def eq_commute [of "Some (password u)"])

lemma login_ok:
  "data ''email'' = Some e \<Longrightarrow> users st e = Some u \<Longrightarrow> data ''password'' = Some (password u) \<Longrightarrow>
     login st data tok =
       (Inr \<lparr>content = [(''message'', ''Login successful''), (''role'', role u), (''name'', name u)],
             set_cookie = tok\<rparr>,
        st\<lparr>sessions := (sessions st)(tok \<mapsto> e)\<rparr>)"
  by (simp add: login_def)

lemma login_fail_iff:
  "fst (login st data tok) = Inl (HTTPException 401 ''Invalid credentials'') \<longleftrightarrow>
     Option.bind (data ''email'') (users st) = None \<or>
     (\<exists>u. Option.bind (data ''email'') (users st) = Some u \<and> Some (password u) \<noteq> data ''password'')"
proof (cases "data ''email''")
  case None
  then show ?thesis by (simp add: login_no_email)
next
  case (Some e)
  show ?thesis
  proof (cases "users st e")
    case None
    with Some show ?thesis by (simp add: login_no_record)
  next
    case u: (Some u)
    show ?thesis
    proof (cases "data ''password'' = Some (password u)")
      case True
      with Some u show ?thesis by (simp add: login_ok)
    next
      case False
      with Some u have "login st data tok = (Inl (HTTPException 401 ''Invalid credentials''), st)"
        by (rule login_mismatch)
      moreover from False have "Some (password u) \<noteq> data ''password''" by (simp add: eq_commute)
      ultimately show ?thesis using Some u by simp
    qed
  qed
qed

lemma login_fail_unchanged:
  assumes "fst (login st data tok) = Inl x"
  shows "x = HTTPException 401 ''Invalid credentials'' \<and> snd (login st data tok) = st"
proof (cases "data ''email''")
  case None
  with assms show ?thesis by (simp add: login_no_email)
next
  case (Some e)
  show ?thesis
  proof (cases "users st e")
    case None
    with Some assms show ?thesis by (simp add: login_no_record)
  next
    case u: (Some u)
    show ?thesis
    proof (cases "data ''password'' = Some (password u)")
      case True
      with Some u assms show ?thesis by (simp add: login_ok)
    next
      case False
      with Some u have "login st data tok = (Inl (HTTPException 401 ''Invalid credentials''), st)"
        by (rule login_mismatch)
      with assms show ?thesis by simp
    qed
  qed
qed

lemma login_users: "users (snd (login st data tok)) = users st"
proof (cases "fst (login st data tok)")
  case (Inl x)
  then show ?thesis by (simp add: login_fail_unchanged)
next
  case (Inr r)
  show ?thesis
  proof (cases "data ''email''")
    case None
    with Inr show ?thesis by (simp add: login_no_email)
  next
    case (Some e)
    show ?thesis
    proof (cases "users st e")
      case None
      with Some Inr show ?thesis by (simp add: login_no_record)
    next
      case u: (Some u)
      show ?thesis
      proof (cases "data ''password'' = Some (password u)")
        case True
        with Some u show ?thesis by (simp add: login_ok)
      next
        case False
        with Some u show ?thesis by (simp add: login_mismatch)
      qed
    qed
  qed
qed

text \<open>
  C6 (login). \<open>login\<close> raises 401 \<open>Invalid credentials\<close> exactly when the email of the
  request has no user record or the stored password differs from the password of the
  request; it raises nothing else, and a failed login leaves the state as it was. A
  successful login returns the role and the name of the user, sets the drawn token as
  cookie and stores the entry from the token to the email in \<open>sessions\<close>. The dictionary
  \<open>users\<close> is the same after every login.
\<close>

theorem login_correct:
  "(fst (login st data tok) = Inl (HTTPException 401 ''Invalid credentials'') \<longleftrightarrow>
      Option.bind (data ''email'') (users st) = None \<or>
      (\<exists>u. Option.bind (data ''email'') (users st) = Some u \<and>
           Some (password u) \<noteq> data ''password'')) \<and>
   (\<forall>x. fst (login st data tok) = Inl x \<longrightarrow>
      x = HTTPException 401 ''Invalid credentials'' \<and> snd (login st data tok) = st) \<and>
   (\<forall>e u. data ''email'' = Some e \<and> users st e = Some u \<and> data ''password'' = Some (password u) \<longrightarrow>
      login st data tok =
        (Inr \<lparr>content = [(''message'', ''Login successful''), (''role'', role u),
                          (''name'', name u)],
              set_cookie = tok\<rparr>,
         st\<lparr>sessions := (sessions st)(tok \<mapsto> e)\<rparr>)) \<and>
   users (snd (login st data tok)) = users st"
proof (intro conjI allI impI)
  show "fst (login st data tok) = Inl (HTTPException 401 ''Invalid credentials'') \<longleftrightarrow>
      Option.bind (data ''email'') (users st) = None \<or>
      (\<exists>u. Option.bind (data ''email'') (users st) = Some u \<and>
           Some (password u) \<noteq> data ''password'')"
    by (rule login_fail_iff)
next
  fix x assume "fst (login st data tok) = Inl x"
  then show "x = HTTPException 401 ''Invalid credentials''" and "snd (login st data tok) = st"
    by (simp_all add: login_fail_unchanged)
next
  fix e u
  assume "data ''email'' = Some e \<and> users st e = Some u \<and> data ''password'' = Some (password u)"
  then show "login st data tok =
        (Inr \<lparr>content = [(''message'', ''Login successful''), (''role'', role u),
                          (''name'', name u)],
              set_cookie = tok\<rparr>,
         st\<lparr>sessions := (sessions st)(tok \<mapsto> e)\<rparr>)"
    by (simp add: login_ok)
next
  show "users (snd (login st data tok)) = users st"
    by (rule login_users)
qed

theorem login_correct_witness:
  "login initial_state [''email'' \<mapsto> ''admin@mergington.edu'', ''password'' \<mapsto> ''adminpass'']
     ''Zm9vYmFyYmF6cXV4MTIzNA'' =
     (Inr \<lparr>content = [(''message'', ''Login successful''), (''role'', ''admin''),
                       (''name'', ''Admin User'')],
           set_cookie = ''Zm9vYmFyYmF6cXV4MTIzNA''\<rparr>,
      initial_state\<lparr>sessions :=
        (sessions initial_state)(''Zm9vYmFyYmF6cXV4MTIzNA'' \<mapsto> ''admin@mergington.edu'')\<rparr>) \<and>
   fst (login initial_state
          [''email'' \<mapsto> ''admin@mergington.edu'', ''password'' \<mapsto> ''wrongpass'']
          ''Zm9vYmFyYmF6cXV4MTIzNA'') = Inl (HTTPException 401 ''Invalid credentials'')"
proof -
  let ?good = "[''email'' \<mapsto> ''admin@mergington.edu'', ''password'' \<mapsto> ''adminpass'']"
  let ?bad = "[''email'' \<mapsto> ''admin@mergington.edu'', ''password'' \<mapsto> ''wrongpass'']"
  let ?u = "\<lparr>password = ''adminpass'', role = ''admin'', name = ''Admin User''\<rparr>"
  have "?good ''email'' = Some ''admin@mergington.edu'' \<and>
      users initial_state ''admin@mergington.edu'' = Some ?u \<and>
      ?good ''password'' = Some (password ?u)"
    by (simp add: admin_rec)
  with login_correct [of initial_state ?good "''Zm9vYmFyYmF6cXV4MTIzNA''"]
  have ok: "login initial_state ?good ''Zm9vYmFyYmF6cXV4MTIzNA'' =
     (Inr \<lparr>content = [(''message'', ''Login successful''), (''role'', role ?u),
                       (''name'', name ?u)],
           set_cookie = ''Zm9vYmFyYmF6cXV4MTIzNA''\<rparr>,
      initial_state\<lparr>sessions :=
        (sessions initial_state)(''Zm9vYmFyYmF6cXV4MTIzNA'' \<mapsto> ''admin@mergington.edu'')\<rparr>)"
    by blast
  have "Option.bind (?bad ''email'') (users initial_state) = Some ?u \<and>
      Some (password ?u) \<noteq> ?bad ''password''"
    by (simp add: admin_rec)
  with login_correct [of initial_state ?bad "''Zm9vYmFyYmF6cXV4MTIzNA''"]
  have bad: "fst (login initial_state ?bad ''Zm9vYmFyYmF6cXV4MTIzNA'') =
      Inl (HTTPException 401 ''Invalid credentials'')"
    by blast
  from ok bad show ?thesis by simp
qed

lemma logout_eq:
  "logout st tok =
     ([(''message'', ''Logged out'')],
      (case tok of None \<Rightarrow> st | Some t \<Rightarrow> st\<lparr>sessions := (sessions st)(t := None)\<rparr>))"
proof (cases tok)
  case None
  then show ?thesis by (simp add: logout_def)
next
  case (Some t)
  show ?thesis
  proof (cases "sessions st t")
    case None
    then have "(sessions st)(t := None) = sessions st" by (rule fun_upd_idem)
    with Some None show ?thesis by (simp add: logout_def)
  next
    case (Some e)
    with \<open>tok = Some t\<close> show ?thesis by (simp add: logout_def)
  qed
qed

lemma logout_absent:
  "Option.bind tok (sessions st) = None \<Longrightarrow> snd (logout st tok) = st"
  by (cases tok) (simp_all add: logout_def)

lemma logout_idem: "snd (logout (snd (logout st tok)) tok) = snd (logout st tok)"
  by (cases tok) (simp_all add: logout_eq)

lemma logout_then_lookup:
  "get_current_user (snd (logout st tok)) tok = Inl (HTTPException 401 ''Not authenticated'')"
  by (cases tok) (simp_all add: logout_eq get_current_user_def)

text \<open>
  C7 (logout). \<open>logout\<close> always returns its message; it removes the token from
  \<open>sessions\<close> and touches nothing else. With no cookie, or a token that is not in
  \<open>sessions\<close>, the state is unchanged. Logging out twice is the same as logging out once.
  After the logout, \<open>get_current_user\<close> raises 401 for that token, so no handler behind
  \<open>Depends(get_current_user)\<close> runs with it.
\<close>

theorem logout_semantics:
  "logout st tok =
     ([(''message'', ''Logged out'')],
      (case tok of None \<Rightarrow> st | Some t \<Rightarrow> st\<lparr>sessions := (sessions st)(t := None)\<rparr>)) \<and>
   (Option.bind tok (sessions st) = None \<longrightarrow> snd (logout st tok) = st) \<and>
   snd (logout (snd (logout st tok)) tok) = snd (logout st tok) \<and>
   get_current_user (snd (logout st tok)) tok =
     Inl (HTTPException 401 ''Not authenticated'') \<and>
   depends_current_user (snd (logout st tok)) tok handler =
     (Inl (HTTPException 401 ''Not authenticated''), snd (logout st tok))"
proof (intro conjI impI)
  show "logout st tok =
     ([(''message'', ''Logged out'')],
      (case tok of None \<Rightarrow> st | Some t \<Rightarrow> st\<lparr>sessions := (sessions st)(t := None)\<rparr>))"
    by (rule logout_eq)
next
  assume "Option.bind tok (sessions st) = None"
  then show "snd (logout st tok) = st" by (rule logout_absent)
next
  show "snd (logout (snd (logout st tok)) tok) = snd (logout st tok)"
    by (rule logout_idem)
next
  show "get_current_user (snd (logout st tok)) tok =
     Inl (HTTPException 401 ''Not authenticated'')"
    by (rule logout_then_lookup)
next
  show "depends_current_user (snd (logout st tok)) tok handler =
     (Inl (HTTPException 401 ''Not authenticated''), snd (logout st tok))"
    by (simp add: depends_current_user_def logout_then_lookup)
qed

theorem logout_semantics_witness:
  "get_current_user logged_in_state (Some ''Zm9vYmFyYmF6cXV4MTIzNA'') = Inr admin_user \<and>
   snd (logout logged_in_state (Some ''Zm9vYmFyYmF6cXV4MTIzNA'')) = initial_state \<and>
   get_current_user (snd (logout logged_in_state (Some ''Zm9vYmFyYmF6cXV4MTIzNA'')))
     (Some ''Zm9vYmFyYmF6cXV4MTIzNA'') = Inl (HTTPException 401 ''Not authenticated'') \<and>
   snd (logout initial_state (Some ''Zm9vYmFyYmF6cXV4MTIzNA'')) = initial_state"
proof -
  let ?t = "''Zm9vYmFyYmF6cXV4MTIzNA''"
  let ?h = "\<lambda>u. (Inr (get_me u), logged_in_state)"
  have before: "get_current_user logged_in_state (Some ?t) = Inr admin_user"
    by (simp add: get_current_user_def logged_in_state_def admin_rec admin_user_def)
  have "logout logged_in_state (Some ?t) =
      ([(''message'', ''Logged out'')],
       logged_in_state\<lparr>sessions := (sessions logged_in_state)(?t := None)\<rparr>)"
    using logout_semantics [of logged_in_state "Some ?t" ?h] by simp
  moreover have "logged_in_state\<lparr>sessions := (sessions logged_in_state)(?t := None)\<rparr> =
      initial_state"
    by (simp add: logged_in_state_def initial_state_def)
  ultimately have out: "snd (logout logged_in_state (Some ?t)) = initial_state"
    by simp
  have after: "get_current_user (snd (logout logged_in_state (Some ?t))) (Some ?t) =
      Inl (HTTPException 401 ''Not authenticated'')"
    using logout_semantics [of logged_in_state "Some ?t" ?h] by blast
  have "Option.bind (Some ?t) (sessions initial_state) = None"
    by (simp add: initial_state_def)
  with logout_semantics [of initial_state "Some ?t" ?h]
  have absent: "snd (logout initial_state (Some ?t)) = initial_state"
    by blast
  from before out after absent show ?thesis by blast
qed

section \<open>Accounts\<close>

lemma delete_user_cases:
  assumes "role u = ''admin''"
  shows "users st e = None \<Longrightarrow>
           delete_user st e u = (Inl (HTTPException 404 ''User not found''), st)"
    and "users st e = Some t \<Longrightarrow> role t = ''admin'' \<Longrightarrow>
           delete_user st e u = (Inl (HTTPException 403 ''Cannot delete another admin''), st)"
    and "users st e = Some t \<Longrightarrow> role t \<noteq> ''admin'' \<Longrightarrow>
           delete_user st e u =
             (Inr [(''message'', ''User '' @ e @ '' deleted'')],
              st\<lparr>users := (users st)(e := None)\<rparr>)"
  using assms by (simp_all add: delete_user_def require_roles_def)

lemma delete_user_fail_unchanged:
  "fst (delete_user st e u) = Inl x \<Longrightarrow> snd (delete_user st e u) = st"
  by (auto simp add: delete_user_def split: option.splits sum.splits if_splits)

text \<open>
  C8 (delete_user). For a current user with role \<open>admin\<close>: an email without a user record
  gives 404; a target record with role \<open>admin\<close> gives 403, for every such target and so
  also for the acting administrator; any other target is removed from \<open>users\<close> and
  nothing else changes. Whenever \<open>delete_user\<close> raises, the state it returns is the state
  it was given.
\<close>

theorem delete_user_semantics:
  "(role u = ''admin'' \<longrightarrow>
      (users st e = None \<longrightarrow>
         delete_user st e u = (Inl (HTTPException 404 ''User not found''), st)) \<and>
      (\<forall>t. users st e = Some t \<and> role t = ''admin'' \<longrightarrow>
         delete_user st e u = (Inl (HTTPException 403 ''Cannot delete another admin''), st)) \<and>
      (\<forall>t. users st e = Some t \<and> role t \<noteq> ''admin'' \<longrightarrow>
         delete_user st e u =
           (Inr [(''message'', ''User '' @ e @ '' deleted'')],
            st\<lparr>users := (users st)(e := None)\<rparr>))) \<and>
   (\<forall>x. fst (delete_user st e u) = Inl x \<longrightarrow> snd (delete_user st e u) = st)"
  using delete_user_cases [of u st e] delete_user_fail_unchanged [of st e u]
  by (simp (no_asm_simp))

theorem delete_user_semantics_witness:
  "delete_user initial_state ''nobody@mergington.edu'' admin_user =
     (Inl (HTTPException 404 ''User not found''), initial_state) \<and>
   delete_user initial_state ''admin@mergington.edu'' admin_user =
     (Inl (HTTPException 403 ''Cannot delete another admin''), initial_state) \<and>
   delete_user initial_state ''student@mergington.edu'' admin_user =
     (Inr [(''message'', ''User student@mergington.edu deleted'')],
      initial_state\<lparr>users := (users initial_state)(''student@mergington.edu'' := None)\<rparr>)"
  using delete_user_semantics [of admin_user initial_state "''nobody@mergington.edu''"]
    delete_user_semantics [of admin_user initial_state "''admin@mergington.edu''"]
    delete_user_semantics [of admin_user initial_state "''student@mergington.edu''"]
  by (simp add: admin_rec student_rec nobody_rec admin_user_def)

lemma list_users_eq:
  "role u = ''admin'' \<or> role u = ''staff'' \<Longrightarrow>
     list_users st u =
       Inr (\<lambda>e. map_option (\<lambda>info. [(''role'', role info), (''name'', name info)]) (users st e))"
  by (auto simp add: list_users_def require_roles_def items_def)

text \<open>
  C9 (list_users). For a current user with role \<open>admin\<close> or \<open>staff\<close>, \<open>list_users\<close> returns
  a mapping with exactly the emails of \<open>users\<close> as keys; the entry of an email holds the
  role and the name of its record, and no entry has the key \<open>password\<close>.
\<close>

theorem list_users_sanitized:
  assumes "role u = ''admin'' \<or> role u = ''staff''"
  shows "\<exists>m. list_users st u = Inr m \<and> dom m = dom (users st) \<and>
      (\<forall>e info. users st e = Some info \<longrightarrow>
         m e = Some [(''role'', role info), (''name'', name info)]) \<and>
      (\<forall>e entry. m e = Some entry \<longrightarrow> ''password'' \<notin> fst ` set entry)"
proof -
  let ?m = "\<lambda>e. map_option (\<lambda>info. [(''role'', role info), (''name'', name info)]) (users st e)"
  have "list_users st u = Inr ?m"
    using assms by (rule list_users_eq)
  moreover have "dom ?m = dom (users st)"
    by (auto simp add: dom_def)
  moreover have "\<forall>e info. users st e = Some info \<longrightarrow>
      ?m e = Some [(''role'', role info), (''name'', name info)]"
    by simp
  moreover have "\<forall>e entry. ?m e = Some entry \<longrightarrow> ''password'' \<notin> fst ` set entry"
    by auto
  ultimately show ?thesis by blast
qed

theorem list_users_sanitized_witness:
  "\<exists>m. list_users initial_state staff_user = Inr m \<and>
     m ''admin@mergington.edu'' = Some [(''role'', ''admin''), (''name'', ''Admin User'')]"
proof -
  have "role staff_user = ''admin'' \<or> role staff_user = ''staff''"
    by (simp add: staff_user_def)
  from list_users_sanitized [OF this, of initial_state] obtain m
    where "list_users initial_state staff_user = Inr m"
      and "\<forall>e info. users initial_state e = Some info \<longrightarrow>
         m e = Some [(''role'', role info), (''name'', name info)]"
    by blast
  with admin_rec show ?thesis by simp
qed

lemma create_user_ok:
  assumes "role u = ''admin'' \<or> role u = ''staff''"
    and "data ''email'' = Some e" "data ''password'' = Some p" "data ''role'' = Some r"
      "data ''name'' = Some n"
    and "e \<noteq> []" "p \<noteq> []" "n \<noteq> []"
    and "users st e = None"
    and "r = ''admin'' \<or> r = ''staff'' \<or> r = ''student''"
  shows "create_user st data u =
     (Inr [(''message'', ''User '' @ e @ '' created with role '' @ r)],
      st\<lparr>users := (users st)(e \<mapsto> \<lparr>password = p, role = r, name = n\<rparr>)\<rparr>)"
  using assms by (auto simp add: create_user_def require_roles_def py_not_def)

text \<open>
  C10 (staff may create an administrator). A current user with role \<open>staff\<close> passes the
  role check of \<open>create_user\<close>, and a request with the role \<open>admin\<close>, non-empty email,
  password and name, and an email that has no record yet, succeeds and stores the new
  record with role \<open>admin\<close>.
\<close>

theorem staff_creates_admin:
  assumes "role u = ''staff''"
    and "data ''email'' = Some e" "data ''password'' = Some p" "data ''role'' = Some ''admin''"
      "data ''name'' = Some n"
    and "e \<noteq> []" "p \<noteq> []" "n \<noteq> []"
    and "users st e = None"
  shows "require_roles [''admin'', ''staff''] u = Inr u \<and>
    create_user st data u =
     (Inr [(''message'', ''User '' @ e @ '' created with role admin'')],
      st\<lparr>users := (users st)(e \<mapsto> \<lparr>password = p, role = ''admin'', name = n\<rparr>)\<rparr>)"
  using assms create_user_ok [of u data e p "''admin''" n st]
  by (simp add: require_roles_def)

theorem staff_creates_admin_witness:
  "create_user initial_state
     [''email'' \<mapsto> ''root@mergington.edu'', ''password'' \<mapsto> ''hunter2'',
      ''role'' \<mapsto> ''admin'', ''name'' \<mapsto> ''Root'']
     staff_user =
   (Inr [(''message'', ''User root@mergington.edu created with role admin'')],
    initial_state\<lparr>users := (users initial_state)(''root@mergington.edu'' \<mapsto>
      \<lparr>password = ''hunter2'', role = ''admin'', name = ''Root''\<rparr>)\<rparr>)"
proof -
  have "users initial_state ''root@mergington.edu'' = None"
    by (simp add: initial_state_def seed_users_def)
  moreover have "role staff_user = ''staff''"
    by (simp add: staff_user_def)
  ultimately show ?thesis
    using staff_creates_admin [of staff_user
        "[''email'' \<mapsto> ''root@mergington.edu'', ''password'' \<mapsto> ''hunter2'',
          ''role'' \<mapsto> ''admin'', ''name'' \<mapsto> ''Root'']"
        "''root@mergington.edu''" "''hunter2''" "''Root''" initial_state]
    by simp
qed

end
